theory Spec2Isabelle
  imports Main "HOL-Library.Sublist"
begin

section \<open>The collection optimizer of update_indexing_config.py\<close>

text \<open>
  The script reads two credentials from the process environment, builds a client of the
  vector database, sends one update of a collection's configuration, reads the collection
  back and logs two counters. Everything it does is an effect on something outside the
  script, so the model passes an explicit state (the environment variables, the remote
  calls made so far, the log records emitted so far) and takes the outside as a
  parameter, the \<open>world\<close>: the contents of the \<open>.env\<close> file and what the client
  library answers to each call.
\<close>

subsection \<open>Data\<close>

text \<open>\<open>os.environ\<close> and the \<open>.env\<close> file: variable names to values.\<close>

type_synonym environ = "string \<rightharpoonup> string"

text \<open>
  A raised exception, as far as the script looks at it: its class and \<open>str(e)\<close>. The
  values stand for instances of \<open>Exception\<close>, which is what the client library and the
  service's rejections raise and what both handlers (\<open>except Exception\<close>) catch.
  Asynchronous signals (\<open>KeyboardInterrupt\<close>, \<open>SystemExit\<close>) are not outcomes of a
  call and are not modelled.
\<close>

datatype py_exception = PyException (exc_type: string) (exc_str: string)

text \<open>
  The keyword arguments given to \<open>OptimizersConfigDiff\<close> and \<open>HnswConfigDiff\<close>: the
  fields that are set, in the order written. A field that is not named is not sent.
\<close>

type_synonym config_diff = "(string \<times> int) list"

text \<open>The client object: what \<open>QdrantClient(url=..., api_key=...)\<close> was given.\<close>

record qdrant_client =
  client_url :: "string option"
  client_api_key :: "string option"

text \<open>The two requests the script sends through the client.\<close>

datatype remote_call =
    UpdateCollection qdrant_client string config_diff config_diff
  | GetCollection qdrant_client string

text \<open>
  Modelled from the spec: the class of the answer of \<open>get_collection\<close> belongs to the
  client library, not to this module. Of the answer, the two attributes that the script
  reads, each an integer as the data model has it (\<open>CollectionStatus\<close>).
\<close>

record collection_info =
  indexed_vectors_count :: int
  vectors_count :: int

datatype log_level = INFO | ERROR

text \<open>
  A log record: level and message (\<open>basicConfig(level=logging.INFO)\<close> lets both levels
  through; the time stamp of the format is not modelled).
\<close>

type_synonym log_record = "log_level \<times> string"

text \<open>The objects a function of this module can hand back to its caller.\<close>

datatype py_value = PyNone | PyCollectionInfo collection_info

text \<open>
  The outside. The answers of the remote service may depend on every call made before
  (the service has state, and may fail at any call).
\<close>

record world =
  dotenv_file :: environ
  client_init_error :: "string option \<Rightarrow> string option \<Rightarrow> py_exception option"
  update_collection_reply ::
    "remote_call list \<Rightarrow> qdrant_client \<Rightarrow> string \<Rightarrow> config_diff \<Rightarrow> config_diff
      \<Rightarrow> py_exception + bool"
  get_collection_reply ::
    "remote_call list \<Rightarrow> qdrant_client \<Rightarrow> string \<Rightarrow> py_exception + collection_info"

record state =
  environ :: environ
  calls :: "remote_call list"
  logs :: "log_record list"

subsection \<open>The library calls\<close>

text \<open>
  \<open>load_dotenv()\<close> with its default \<open>override=False\<close>: a variable of the file is set
  unless the process environment has it already.
\<close>

definition load_dotenv :: "world \<Rightarrow> state \<Rightarrow> state" where
  "load_dotenv w s = s\<lparr>environ := dotenv_file w ++ environ s\<rparr>"

text \<open>\<open>os.getenv(k)\<close>: \<open>None\<close> for a variable that is not set.\<close>

definition getenv :: "state \<Rightarrow> string \<Rightarrow> string option" where
  "getenv s k = environ s k"

text \<open>The constructor keeps what it is given, unless the library refuses it.\<close>

definition QdrantClient ::
  "world \<Rightarrow> string option \<Rightarrow> string option \<Rightarrow> py_exception + qdrant_client" where
  "QdrantClient w u k =
     (case client_init_error w u k of
        Some e \<Rightarrow> Inl e
      | None \<Rightarrow> Inr \<lparr>client_url = u, client_api_key = k\<rparr>)"

text \<open>A request is recorded whether or not it succeeds: it was made.\<close>

definition update_collection ::
  "world \<Rightarrow> qdrant_client \<Rightarrow> string \<Rightarrow> config_diff \<Rightarrow> config_diff \<Rightarrow> state
    \<Rightarrow> (py_exception + bool) \<times> state" where
  "update_collection w client collection_name optimizer_config hnsw_config s =
     (update_collection_reply w (calls s) client collection_name optimizer_config hnsw_config,
      s\<lparr>calls := calls s @ [UpdateCollection client collection_name optimizer_config hnsw_config]\<rparr>)"

definition get_collection ::
  "world \<Rightarrow> qdrant_client \<Rightarrow> string \<Rightarrow> state \<Rightarrow> (py_exception + collection_info) \<times> state" where
  "get_collection w client collection_name s =
     (get_collection_reply w (calls s) client collection_name,
      s\<lparr>calls := calls s @ [GetCollection client collection_name]\<rparr>)"

definition logger_info :: "string \<Rightarrow> state \<Rightarrow> state" where
  "logger_info msg s = s\<lparr>logs := logs s @ [(INFO, msg)]\<rparr>"

definition logger_error :: "string \<Rightarrow> state \<Rightarrow> state" where
  "logger_error msg s = s\<lparr>logs := logs s @ [(ERROR, msg)]\<rparr>"

text \<open>\<open>str(n)\<close> of an integer, as the f-strings print the counters.\<close>

function str_nat :: "nat \<Rightarrow> string" where
  "str_nat n =
     (if n < 10 then [''0123456789'' ! n]
      else str_nat (n div 10) @ [''0123456789'' ! (n mod 10)])"
  by pat_completeness auto
termination
  by (relation "measure id") auto

definition str_int :: "int \<Rightarrow> string" where
  "str_int i = (if i < 0 then CHR ''-'' # str_nat (nat (- i)) else str_nat (nat i))"

subsection \<open>The script\<close>

text \<open>
  The body of the \<open>try\<close> of \<open>optimize_qdrant_collection\<close>, lines 21 to 48: the first
  exception ends it, with the state as it is at that point.
\<close>

definition optimize_try :: "world \<Rightarrow> string \<Rightarrow> state \<Rightarrow> (py_exception + unit) \<times> state" where
  "optimize_try w collection_name s =
     (let s1 = load_dotenv w s in
      case QdrantClient w (getenv s1 ''QDRANT_URL'') (getenv s1 ''QDRANT_API_KEY'') of
        Inl e \<Rightarrow> (Inl e, s1)
      | Inr client \<Rightarrow>
          (case update_collection w client collection_name
                  [(''indexing_threshold'', 1000), (''max_optimization_threads'', 2)]
                  [(''max_indexing_threads'', 4), (''m'', 24), (''ef_construct'', 200)] s1 of
             (Inl e, s2) \<Rightarrow> (Inl e, s2)
           | (Inr _, s2) \<Rightarrow>
               (case get_collection w client collection_name s2 of
                  (Inl e, s3) \<Rightarrow> (Inl e, s3)
                | (Inr collection_info, s3) \<Rightarrow>
                    (Inr (),
                     logger_info
                       (''Total Vectors Count: '' @ str_int (vectors_count collection_info))
                       (logger_info
                          (''Indexed Vectors Count: ''
                             @ str_int (indexed_vectors_count collection_info))
                          (logger_info
                             (''Collection Optimization Results for '' @ [CHR 0x27]
                                @ collection_name @ [CHR 0x27] @ '':'')
                             s3))))))"

text \<open>
  The whole function: the handler of line 50 logs and raises the same exception again;
  without an exception the function reaches its end and returns \<open>None\<close>.
\<close>

definition optimize_qdrant_collection ::
  "world \<Rightarrow> string \<Rightarrow> state \<Rightarrow> (py_exception + py_value) \<times> state" where
  "optimize_qdrant_collection w collection_name s =
     (case optimize_try w collection_name s of
        (Inl e, s') \<Rightarrow>
          (Inl e,
           logger_error
             (''Error optimizing collection '' @ collection_name @ '': '' @ exc_str e) s')
      | (Inr _, s') \<Rightarrow> (Inr PyNone, s'))"

definition main :: "world \<Rightarrow> state \<Rightarrow> (py_exception + py_value) \<times> state" where
  "main w s =
     (case optimize_qdrant_collection w ''alpaca_financial_news'' s of
        (Inl e, s') \<Rightarrow> (Inr PyNone, logger_error (''Optimization failed: '' @ exc_str e) s')
      | (Inr _, s') \<Rightarrow> (Inr PyNone, s'))"

text \<open>
  Run as a script, the module calls \<open>main()\<close> and ends: status 0 when \<open>main\<close> returns,
  status 1 when an exception leaves it.
\<close>

definition script_exit_status :: "world \<Rightarrow> state \<Rightarrow> int" where
  "script_exit_status w s = (case fst (main w s) of Inl _ \<Rightarrow> 1 | Inr _ \<Rightarrow> 0)"

subsection \<open>The remote configuration\<close>

text \<open>
  Modelled from the spec: the service is an external collaborator and its handling of a
  request is not code of this module. What an accepted request does to the configuration
  the service keeps for each collection, as the data model describes it: an update is
  partial, a field that the request does not set keeps its value, and reading a collection
  changes nothing. A configuration is the pair of the optimizer settings and the index
  settings.
\<close>

type_synonym collection_config = "(string \<rightharpoonup> int) \<times> (string \<rightharpoonup> int)"

fun remote_effect ::
  "(string \<Rightarrow> collection_config) \<Rightarrow> remote_call \<Rightarrow> (string \<Rightarrow> collection_config)" where
  "remote_effect st (UpdateCollection client n optimizer_config hnsw_config) =
     st(n := (fst (st n) ++ map_of optimizer_config, snd (st n) ++ map_of hnsw_config))"
| "remote_effect st (GetCollection client n) = st"

subsection \<open>Concrete runs\<close>

text \<open>
  A process that starts with an empty environment, and six outsides: a service that
  accepts everything and reports 500 indexed vectors of 1000, one whose update is
  refused, one whose read fails, a client library that refuses the address, and two
  services reached without any credential (no \<open>.env\<close> file, nothing in the
  environment): one accepts the requests all the same, the other refuses the update.
\<close>

definition fresh :: state where
  "fresh = \<lparr>environ = Map.empty, calls = [], logs = []\<rparr>"

definition credentials_file :: environ where
  "credentials_file =
     [''QDRANT_URL'' \<mapsto> ''https://qdrant.example:6333'', ''QDRANT_API_KEY'' \<mapsto> ''secret'']"

definition service_up :: world where
  "service_up =
     \<lparr>dotenv_file = credentials_file,
      client_init_error = (\<lambda>u k. None),
      update_collection_reply = (\<lambda>h c n oc hc. Inr True),
      get_collection_reply =
        (\<lambda>h c n. Inr \<lparr>indexed_vectors_count = 500, vectors_count = 1000\<rparr>)\<rparr>"

definition update_refused :: world where
  "update_refused =
     service_up\<lparr>update_collection_reply :=
       (\<lambda>h c n oc hc. Inl (PyException ''UnexpectedResponse'' ''403 (Forbidden)''))\<rparr>"

definition read_fails :: world where
  "read_fails =
     service_up\<lparr>get_collection_reply :=
       (\<lambda>h c n. Inl (PyException ''ResponseHandlingException'' ''timed out''))\<rparr>"

definition address_refused :: world where
  "address_refused =
     service_up\<lparr>client_init_error :=
       (\<lambda>u k. Some (PyException ''ValueError'' ''Unknown scheme''))\<rparr>"

definition open_service :: world where
  "open_service = service_up\<lparr>dotenv_file := Map.empty\<rparr>"

definition anonymous_refused :: world where
  "anonymous_refused = update_refused\<lparr>dotenv_file := Map.empty\<rparr>"

section \<open>Properties\<close>

lemmas script_defs =
  optimize_qdrant_collection_def optimize_try_def load_dotenv_def getenv_def
  QdrantClient_def update_collection_def get_collection_def logger_info_def logger_error_def

lemma sublist_error_name:
  "sublist n (''Error optimizing collection '' @ n @ '': '' @ m)"
  by (rule sublist_appendI)

lemma sublist_error_cause:
  "sublist m (''Error optimizing collection '' @ n @ '': '' @ m)"
  using sublist_append_leftI [of m "''Error optimizing collection '' @ n @ '': ''"]
  by (simp only: append_assoc)

subsection \<open>The remote calls of a successful run\<close>

text \<open>
  C1. For every collection name, a run of \<open>optimize_qdrant_collection\<close> that returns
  without an exception has made exactly two remote calls, through the client built from
  the two environment variables: first one update of the collection carrying
  \<open>indexing_threshold=1000\<close>, \<open>max_optimization_threads=2\<close>, \<open>max_indexing_threads=4\<close>,
  \<open>m=24\<close> and \<open>ef_construct=200\<close>, then one read of the collection, and nothing else.
\<close>

theorem optimize_success_calls:
  assumes "fst (optimize_qdrant_collection w collection_name s) = Inr v"
  defines "client \<equiv> \<lparr>client_url = getenv (load_dotenv w s) ''QDRANT_URL'',
                      client_api_key = getenv (load_dotenv w s) ''QDRANT_API_KEY''\<rparr>"
  shows "calls (snd (optimize_qdrant_collection w collection_name s)) =
           calls s @
           [UpdateCollection client collection_name
              [(''indexing_threshold'', 1000), (''max_optimization_threads'', 2)]
              [(''max_indexing_threads'', 4), (''m'', 24), (''ef_construct'', 200)],
            GetCollection client collection_name]"
  using assms(1) unfolding client_def
  by (auto simp: script_defs Let_def split: sum.splits option.splits prod.splits)

theorem optimize_success_calls_witness:
  "fst (optimize_qdrant_collection service_up ''alpaca_financial_news'' fresh) = Inr PyNone \<and>
   calls (snd (optimize_qdrant_collection service_up ''alpaca_financial_news'' fresh)) =
     [UpdateCollection
        \<lparr>client_url = Some ''https://qdrant.example:6333'', client_api_key = Some ''secret''\<rparr>
        ''alpaca_financial_news''
        [(''indexing_threshold'', 1000), (''max_optimization_threads'', 2)]
        [(''max_indexing_threads'', 4), (''m'', 24), (''ef_construct'', 200)],
      GetCollection
        \<lparr>client_url = Some ''https://qdrant.example:6333'', client_api_key = Some ''secret''\<rparr>
        ''alpaca_financial_news'']"
proof -
  have ok: "fst (optimize_qdrant_collection service_up ''alpaca_financial_news'' fresh) = Inr PyNone"
    by (simp add: script_defs fresh_def credentials_file_def service_up_def)
  from optimize_success_calls [OF ok] ok show ?thesis
    by (simp add: load_dotenv_def getenv_def fresh_def credentials_file_def service_up_def)
qed

subsection \<open>What a successful run hands back\<close>

text \<open>
  C2, as the specification states it, fails: the function has no \<open>return\<close> statement, so
  against a service that reports 500 indexed vectors of 1000 after the update it returns
  \<open>None\<close>, not the snapshot.
\<close>

theorem optimize_returns_snapshot_counterexample:
  "get_collection_reply service_up
     [UpdateCollection
        \<lparr>client_url = Some ''https://qdrant.example:6333'', client_api_key = Some ''secret''\<rparr>
        ''alpaca_financial_news''
        [(''indexing_threshold'', 1000), (''max_optimization_threads'', 2)]
        [(''max_indexing_threads'', 4), (''m'', 24), (''ef_construct'', 200)]]
     \<lparr>client_url = Some ''https://qdrant.example:6333'', client_api_key = Some ''secret''\<rparr>
     ''alpaca_financial_news''
     = Inr \<lparr>indexed_vectors_count = 500, vectors_count = 1000\<rparr> \<and>
   fst (optimize_qdrant_collection service_up ''alpaca_financial_news'' fresh) = Inr PyNone \<and>
   fst (optimize_qdrant_collection service_up ''alpaca_financial_news'' fresh)
     \<noteq> Inr (PyCollectionInfo \<lparr>indexed_vectors_count = 500, vectors_count = 1000\<rparr>)"
  by (simp add: script_defs fresh_def credentials_file_def service_up_def)

text \<open>
  C2, amended. When the client is built, the update is accepted and the read after it
  answers with a snapshot, \<open>optimize_qdrant_collection\<close> returns \<open>None\<close> and writes the
  snapshot to the log: after a header naming the collection, one line with the indexed
  vector count and one with the total vector count, both printed as they were received.
\<close>

theorem optimize_logs_snapshot:
  fixes w :: world and collection_name :: string and s :: state
  defines "url \<equiv> getenv (load_dotenv w s) ''QDRANT_URL''"
  defines "key \<equiv> getenv (load_dotenv w s) ''QDRANT_API_KEY''"
  defines "client \<equiv> \<lparr>client_url = url, client_api_key = key\<rparr>"
  defines "update \<equiv> UpdateCollection client collection_name
              [(''indexing_threshold'', 1000), (''max_optimization_threads'', 2)]
              [(''max_indexing_threads'', 4), (''m'', 24), (''ef_construct'', 200)]"
  assumes "client_init_error w url key = None"
    and "update_collection_reply w (calls s) client collection_name
              [(''indexing_threshold'', 1000), (''max_optimization_threads'', 2)]
              [(''max_indexing_threads'', 4), (''m'', 24), (''ef_construct'', 200)] = Inr ack"
    and "get_collection_reply w (calls s @ [update]) client collection_name = Inr info"
  shows "fst (optimize_qdrant_collection w collection_name s) = Inr PyNone \<and>
         logs (snd (optimize_qdrant_collection w collection_name s)) =
           logs s @
           [(INFO, ''Collection Optimization Results for '' @ [CHR 0x27] @ collection_name
                     @ [CHR 0x27] @ '':''),
            (INFO, ''Indexed Vectors Count: '' @ str_int (indexed_vectors_count info)),
            (INFO, ''Total Vectors Count: '' @ str_int (vectors_count info))]"
  using assms(5-7) unfolding url_def key_def client_def update_def
  by (auto simp: script_defs Let_def split: sum.splits option.splits prod.splits)

theorem optimize_logs_snapshot_witness:
  "fst (optimize_qdrant_collection service_up ''alpaca_financial_news'' fresh) = Inr PyNone \<and>
   logs (snd (optimize_qdrant_collection service_up ''alpaca_financial_news'' fresh)) =
     [(INFO, ''Collection Optimization Results for '' @ [CHR 0x27] @ ''alpaca_financial_news''
                     @ [CHR 0x27] @ '':''),
      (INFO, ''Indexed Vectors Count: 500''),
      (INFO, ''Total Vectors Count: 1000'')]"
  using optimize_logs_snapshot [where w = service_up and s = fresh
          and collection_name = "''alpaca_financial_news''" and ack = True
          and info = "\<lparr>indexed_vectors_count = 500, vectors_count = 1000\<rparr>"]
  by (simp add: load_dotenv_def getenv_def QdrantClient_def fresh_def credentials_file_def service_up_def str_int_def)

subsection \<open>Failures\<close>

text \<open>
  C3. For every collection name, when the client is built and the update call raises,
  the update is the only remote call of the run: no read of the collection is made. One
  error record is logged, and its message contains the collection name.
\<close>

theorem update_failure_no_read:
  fixes w :: world and collection_name :: string and s :: state
  defines "url \<equiv> getenv (load_dotenv w s) ''QDRANT_URL''"
  defines "key \<equiv> getenv (load_dotenv w s) ''QDRANT_API_KEY''"
  defines "client \<equiv> \<lparr>client_url = url, client_api_key = key\<rparr>"
  defines "s' \<equiv> snd (optimize_qdrant_collection w collection_name s)"
  assumes "client_init_error w url key = None"
    and "update_collection_reply w (calls s) client collection_name
              [(''indexing_threshold'', 1000), (''max_optimization_threads'', 2)]
              [(''max_indexing_threads'', 4), (''m'', 24), (''ef_construct'', 200)] = Inl e"
  shows "calls s' =
           calls s @
           [UpdateCollection client collection_name
              [(''indexing_threshold'', 1000), (''max_optimization_threads'', 2)]
              [(''max_indexing_threads'', 4), (''m'', 24), (''ef_construct'', 200)]] \<and>
         (\<forall>c n. GetCollection c n \<notin> set (drop (length (calls s)) (calls s'))) \<and>
         logs s' =
           logs s @
           [(ERROR, ''Error optimizing collection '' @ collection_name @ '': '' @ exc_str e)] \<and>
         sublist collection_name
           (''Error optimizing collection '' @ collection_name @ '': '' @ exc_str e)"
  using assms(5-6) sublist_error_name [of collection_name "exc_str e"]
  unfolding url_def key_def client_def s'_def
  by (auto simp: script_defs Let_def split: sum.splits option.splits prod.splits)

theorem update_failure_no_read_witness:
  "calls (snd (optimize_qdrant_collection update_refused ''alpaca_financial_news'' fresh)) =
     [UpdateCollection
        \<lparr>client_url = Some ''https://qdrant.example:6333'', client_api_key = Some ''secret''\<rparr>
        ''alpaca_financial_news''
        [(''indexing_threshold'', 1000), (''max_optimization_threads'', 2)]
        [(''max_indexing_threads'', 4), (''m'', 24), (''ef_construct'', 200)]] \<and>
   logs (snd (optimize_qdrant_collection update_refused ''alpaca_financial_news'' fresh)) =
     [(ERROR, ''Error optimizing collection alpaca_financial_news: 403 (Forbidden)'')] \<and>
   sublist ''alpaca_financial_news''
     ''Error optimizing collection alpaca_financial_news: 403 (Forbidden)''"
  using update_failure_no_read [where w = update_refused and s = fresh
          and collection_name = "''alpaca_financial_news''"
          and e = "PyException ''UnexpectedResponse'' ''403 (Forbidden)''"]
  by (simp add: load_dotenv_def getenv_def fresh_def credentials_file_def service_up_def update_refused_def)

text \<open>
  C4. For every collection name and every exception raised by the constructor of the
  client, by the update call or by the read after an accepted update,
  \<open>optimize_qdrant_collection\<close> logs exactly one error record, whose message contains
  the collection name and the text of the exception, and raises that same exception to
  its caller.
\<close>

theorem optimize_logs_and_reraises:
  fixes w :: world and collection_name :: string and s :: state
  defines "url \<equiv> getenv (load_dotenv w s) ''QDRANT_URL''"
  defines "key \<equiv> getenv (load_dotenv w s) ''QDRANT_API_KEY''"
  defines "client \<equiv> \<lparr>client_url = url, client_api_key = key\<rparr>"
  defines "update_reply \<equiv> update_collection_reply w (calls s) client collection_name
              [(''indexing_threshold'', 1000), (''max_optimization_threads'', 2)]
              [(''max_indexing_threads'', 4), (''m'', 24), (''ef_construct'', 200)]"
  defines "read_reply \<equiv> get_collection_reply w
              (calls s @ [UpdateCollection client collection_name
                 [(''indexing_threshold'', 1000), (''max_optimization_threads'', 2)]
                 [(''max_indexing_threads'', 4), (''m'', 24), (''ef_construct'', 200)]])
              client collection_name"
  assumes "client_init_error w url key = Some e \<or>
           client_init_error w url key = None \<and> update_reply = Inl e \<or>
           client_init_error w url key = None \<and> update_reply = Inr ack \<and> read_reply = Inl e"
  shows "fst (optimize_qdrant_collection w collection_name s) = Inl e \<and>
         logs (snd (optimize_qdrant_collection w collection_name s)) =
           logs s @
           [(ERROR, ''Error optimizing collection '' @ collection_name @ '': '' @ exc_str e)] \<and>
         sublist collection_name
           (''Error optimizing collection '' @ collection_name @ '': '' @ exc_str e) \<and>
         sublist (exc_str e)
           (''Error optimizing collection '' @ collection_name @ '': '' @ exc_str e)"
  using assms(6) sublist_error_name [of collection_name "exc_str e"]
    sublist_error_cause [of "exc_str e" collection_name]
  unfolding url_def key_def client_def update_reply_def read_reply_def
  by (auto simp: script_defs Let_def split: sum.splits option.splits prod.splits)

theorem optimize_logs_and_reraises_witness:
  "fst (optimize_qdrant_collection address_refused ''alpaca_financial_news'' fresh) =
     Inl (PyException ''ValueError'' ''Unknown scheme'') \<and>
   logs (snd (optimize_qdrant_collection address_refused ''alpaca_financial_news'' fresh)) =
     [(ERROR, ''Error optimizing collection alpaca_financial_news: Unknown scheme'')] \<and>
   fst (optimize_qdrant_collection update_refused ''alpaca_financial_news'' fresh) =
     Inl (PyException ''UnexpectedResponse'' ''403 (Forbidden)'') \<and>
   logs (snd (optimize_qdrant_collection update_refused ''alpaca_financial_news'' fresh)) =
     [(ERROR, ''Error optimizing collection alpaca_financial_news: 403 (Forbidden)'')] \<and>
   fst (optimize_qdrant_collection read_fails ''alpaca_financial_news'' fresh) =
     Inl (PyException ''ResponseHandlingException'' ''timed out'') \<and>
   logs (snd (optimize_qdrant_collection read_fails ''alpaca_financial_news'' fresh)) =
     [(ERROR, ''Error optimizing collection alpaca_financial_news: timed out'')] \<and>
   sublist ''alpaca_financial_news''
     ''Error optimizing collection alpaca_financial_news: timed out'' \<and>
   sublist ''timed out'' ''Error optimizing collection alpaca_financial_news: timed out''"
  using
    optimize_logs_and_reraises [where w = address_refused and s = fresh
      and collection_name = "''alpaca_financial_news''"
      and e = "PyException ''ValueError'' ''Unknown scheme''"]
    optimize_logs_and_reraises [where w = update_refused and s = fresh
      and collection_name = "''alpaca_financial_news''"
      and e = "PyException ''UnexpectedResponse'' ''403 (Forbidden)''"]
    optimize_logs_and_reraises [where w = read_fails and s = fresh
      and collection_name = "''alpaca_financial_news''" and ack = True
      and e = "PyException ''ResponseHandlingException'' ''timed out''"]
  by (simp add: load_dotenv_def getenv_def fresh_def credentials_file_def service_up_def update_refused_def read_fails_def address_refused_def)

text \<open>
  C5. Whenever \<open>optimize_qdrant_collection\<close> raises to \<open>main\<close>, \<open>main\<close> catches the
  exception, logs a second error record after the one of the inner handler, and returns
  normally, so that the script ends with status 0.
\<close>

theorem main_swallows_failure:
  assumes "fst (optimize_qdrant_collection w ''alpaca_financial_news'' s) = Inl e"
  shows "fst (main w s) = Inr PyNone \<and>
         logs (snd (main w s)) =
           logs s @
           [(ERROR, ''Error optimizing collection alpaca_financial_news: '' @ exc_str e),
            (ERROR, ''Optimization failed: '' @ exc_str e)] \<and>
         script_exit_status w s = 0"
  using assms
  by (auto simp: script_exit_status_def main_def script_defs Let_def
           split: sum.splits option.splits prod.splits)

theorem main_swallows_failure_witness:
  "fst (optimize_qdrant_collection update_refused ''alpaca_financial_news'' fresh) =
     Inl (PyException ''UnexpectedResponse'' ''403 (Forbidden)'') \<and>
   fst (main update_refused fresh) = Inr PyNone \<and>
   logs (snd (main update_refused fresh)) =
     [(ERROR, ''Error optimizing collection alpaca_financial_news: 403 (Forbidden)''),
      (ERROR, ''Optimization failed: 403 (Forbidden)'')] \<and>
   script_exit_status update_refused fresh = 0"
proof -
  have raised:
    "fst (optimize_qdrant_collection update_refused ''alpaca_financial_news'' fresh) =
       Inl (PyException ''UnexpectedResponse'' ''403 (Forbidden)'')"
    by (simp add: script_defs fresh_def credentials_file_def service_up_def update_refused_def)
  from main_swallows_failure [OF raised] raised show ?thesis
    by (simp add: fresh_def)
qed

text \<open>
  C6. For every collection name, when the read of the collection raises after the update
  was accepted, one error record whose message contains the collection name is logged and
  no further request is sent: the calls of the run are the update and the failed read, and
  what they leave at the service is the effect of the update.
\<close>

theorem read_failure_no_rollback:
  fixes w :: world and collection_name :: string and s :: state
  defines "url \<equiv> getenv (load_dotenv w s) ''QDRANT_URL''"
  defines "key \<equiv> getenv (load_dotenv w s) ''QDRANT_API_KEY''"
  defines "client \<equiv> \<lparr>client_url = url, client_api_key = key\<rparr>"
  defines "update \<equiv> UpdateCollection client collection_name
              [(''indexing_threshold'', 1000), (''max_optimization_threads'', 2)]
              [(''max_indexing_threads'', 4), (''m'', 24), (''ef_construct'', 200)]"
  defines "s' \<equiv> snd (optimize_qdrant_collection w collection_name s)"
  assumes "client_init_error w url key = None"
    and "update_collection_reply w (calls s) client collection_name
              [(''indexing_threshold'', 1000), (''max_optimization_threads'', 2)]
              [(''max_indexing_threads'', 4), (''m'', 24), (''ef_construct'', 200)] = Inr ack"
    and "get_collection_reply w (calls s @ [update]) client collection_name = Inl e"
  shows "calls s' = calls s @ [update, GetCollection client collection_name] \<and>
         foldl remote_effect st (drop (length (calls s)) (calls s')) = remote_effect st update \<and>
         logs s' =
           logs s @
           [(ERROR, ''Error optimizing collection '' @ collection_name @ '': '' @ exc_str e)] \<and>
         sublist collection_name
           (''Error optimizing collection '' @ collection_name @ '': '' @ exc_str e) \<and>
         fst (optimize_qdrant_collection w collection_name s) = Inl e"
  using assms(6-8) sublist_error_name [of collection_name "exc_str e"]
  unfolding url_def key_def client_def update_def s'_def
  by (auto simp: script_defs Let_def split: sum.splits option.splits prod.splits)

theorem read_failure_no_rollback_witness:
  "calls (snd (optimize_qdrant_collection read_fails ''alpaca_financial_news'' fresh)) =
     [UpdateCollection
        \<lparr>client_url = Some ''https://qdrant.example:6333'', client_api_key = Some ''secret''\<rparr>
        ''alpaca_financial_news''
        [(''indexing_threshold'', 1000), (''max_optimization_threads'', 2)]
        [(''max_indexing_threads'', 4), (''m'', 24), (''ef_construct'', 200)],
      GetCollection
        \<lparr>client_url = Some ''https://qdrant.example:6333'', client_api_key = Some ''secret''\<rparr>
        ''alpaca_financial_news''] \<and>
   logs (snd (optimize_qdrant_collection read_fails ''alpaca_financial_news'' fresh)) =
     [(ERROR, ''Error optimizing collection alpaca_financial_news: timed out'')] \<and>
   sublist ''alpaca_financial_news''
     ''Error optimizing collection alpaca_financial_news: timed out''"
  using read_failure_no_rollback [where w = read_fails and s = fresh
          and collection_name = "''alpaca_financial_news''" and ack = True
          and e = "PyException ''ResponseHandlingException'' ''timed out''"]
  by (simp add: load_dotenv_def getenv_def fresh_def credentials_file_def service_up_def read_fails_def)

subsection \<open>Running twice\<close>

lemma optimize_success_state:
  assumes "optimize_qdrant_collection w n s = (Inr v, s')"
  shows "environ s' = dotenv_file w ++ environ s"
  using assms
  by (auto simp: script_defs Let_def split: sum.splits option.splits prod.splits)

lemma load_dotenv_again:
  "environ s' = dotenv_file w ++ environ s \<Longrightarrow> getenv (load_dotenv w s') k = getenv (load_dotenv w s) k"
  by (simp add: load_dotenv_def getenv_def map_add_def split: option.splits)

lemma calls_load_dotenv: "calls (load_dotenv w s) = calls s"
  by (simp add: load_dotenv_def)

text \<open>
  C7. Two runs of \<open>optimize_qdrant_collection\<close> in succession for the same collection,
  both returning without an exception, send two update calls with the same payload (the
  same five literal values, through equal clients), each followed by its read. What the
  two runs leave at the service is what the first run alone leaves: the collection's
  configuration with the five values set and every other field as it was.
\<close>

theorem optimize_twice_same_update:
  fixes w :: world and collection_name :: string and s :: state
  defines "client \<equiv> \<lparr>client_url = getenv (load_dotenv w s) ''QDRANT_URL'',
                      client_api_key = getenv (load_dotenv w s) ''QDRANT_API_KEY''\<rparr>"
  defines "update \<equiv> UpdateCollection client collection_name
              [(''indexing_threshold'', 1000), (''max_optimization_threads'', 2)]
              [(''max_indexing_threads'', 4), (''m'', 24), (''ef_construct'', 200)]"
  assumes first: "optimize_qdrant_collection w collection_name s = (Inr v, s')"
    and second: "optimize_qdrant_collection w collection_name s' = (Inr v', s'')"
  shows "calls s'' =
           calls s @ [update, GetCollection client collection_name,
                      update, GetCollection client collection_name] \<and>
         foldl remote_effect st (drop (length (calls s)) (calls s'')) =
           foldl remote_effect st (drop (length (calls s)) (calls s')) \<and>
         foldl remote_effect st (drop (length (calls s)) (calls s'')) collection_name =
           (fst (st collection_name)
              ++ [''indexing_threshold'' \<mapsto> 1000, ''max_optimization_threads'' \<mapsto> 2],
            snd (st collection_name)
              ++ [''max_indexing_threads'' \<mapsto> 4, ''m'' \<mapsto> 24, ''ef_construct'' \<mapsto> 200])"
proof -
  have env: "environ s' = dotenv_file w ++ environ s"
    using first by (rule optimize_success_state)
  have c1: "calls s' = calls s @ [update, GetCollection client collection_name]"
    using first unfolding client_def update_def
    by (auto simp: script_defs Let_def split: sum.splits option.splits prod.splits)
  have c2: "calls s'' = calls s' @ [update, GetCollection client collection_name]"
    using second load_dotenv_again [OF env] unfolding client_def update_def
    by (auto simp: calls_load_dotenv optimize_qdrant_collection_def optimize_try_def
        QdrantClient_def update_collection_def get_collection_def logger_info_def logger_error_def
        Let_def split: sum.splits option.splits prod.splits)
  show ?thesis
    unfolding c2 c1 by (simp add: update_def fun_eq_iff map_add_def)
qed

theorem optimize_twice_same_update_witness:
  "fst (optimize_qdrant_collection service_up ''alpaca_financial_news'' fresh) = Inr PyNone \<and>
   fst (optimize_qdrant_collection service_up ''alpaca_financial_news''
          (snd (optimize_qdrant_collection service_up ''alpaca_financial_news'' fresh)))
     = Inr PyNone \<and>
   calls (snd (optimize_qdrant_collection service_up ''alpaca_financial_news''
          (snd (optimize_qdrant_collection service_up ''alpaca_financial_news'' fresh)))) =
     [UpdateCollection
        \<lparr>client_url = Some ''https://qdrant.example:6333'', client_api_key = Some ''secret''\<rparr>
        ''alpaca_financial_news''
        [(''indexing_threshold'', 1000), (''max_optimization_threads'', 2)]
        [(''max_indexing_threads'', 4), (''m'', 24), (''ef_construct'', 200)],
      GetCollection
        \<lparr>client_url = Some ''https://qdrant.example:6333'', client_api_key = Some ''secret''\<rparr>
        ''alpaca_financial_news'',
      UpdateCollection
        \<lparr>client_url = Some ''https://qdrant.example:6333'', client_api_key = Some ''secret''\<rparr>
        ''alpaca_financial_news''
        [(''indexing_threshold'', 1000), (''max_optimization_threads'', 2)]
        [(''max_indexing_threads'', 4), (''m'', 24), (''ef_construct'', 200)],
      GetCollection
        \<lparr>client_url = Some ''https://qdrant.example:6333'', client_api_key = Some ''secret''\<rparr>
        ''alpaca_financial_news'']"
proof -
  let ?run1 = "optimize_qdrant_collection service_up ''alpaca_financial_news'' fresh"
  let ?run2 = "optimize_qdrant_collection service_up ''alpaca_financial_news'' (snd ?run1)"
  have r1: "fst ?run1 = Inr PyNone"
    by (simp add: script_defs fresh_def credentials_file_def service_up_def)
  have r2: "fst ?run2 = Inr PyNone"
    by (simp add: script_defs fresh_def credentials_file_def service_up_def)
  have first: "?run1 = (Inr PyNone, snd ?run1)"
    using r1 by (simp add: prod_eq_iff)
  have second: "?run2 = (Inr PyNone, snd ?run2)"
    using r2 by (simp add: prod_eq_iff)
  from optimize_twice_same_update [OF first second] r1 r2 show ?thesis
    by (simp add: load_dotenv_def getenv_def fresh_def credentials_file_def service_up_def)
qed

subsection \<open>Log records\<close>




subsection \<open>Missing credentials\<close>

text \<open>
  C9, as the specification states it, fails: the script never looks at the credentials, so
  whether the update fails without them is the service's decision. With neither variable
  set, against a service that accepts requests without credentials, the update is sent
  through a client built from two absent values, it succeeds, and no error is logged.
\<close>

theorem missing_credentials_counterexample:
  "getenv (load_dotenv open_service fresh) ''QDRANT_URL'' = None \<and>
   getenv (load_dotenv open_service fresh) ''QDRANT_API_KEY'' = None \<and>
   update_collection_reply open_service []
     \<lparr>client_url = None, client_api_key = None\<rparr> ''alpaca_financial_news''
     [(''indexing_threshold'', 1000), (''max_optimization_threads'', 2)]
     [(''max_indexing_threads'', 4), (''m'', 24), (''ef_construct'', 200)] = Inr True \<and>
   fst (optimize_qdrant_collection open_service ''alpaca_financial_news'' fresh) = Inr PyNone \<and>
   calls (snd (main open_service fresh)) =
     [UpdateCollection \<lparr>client_url = None, client_api_key = None\<rparr> ''alpaca_financial_news''
        [(''indexing_threshold'', 1000), (''max_optimization_threads'', 2)]
        [(''max_indexing_threads'', 4), (''m'', 24), (''ef_construct'', 200)],
      GetCollection \<lparr>client_url = None, client_api_key = None\<rparr> ''alpaca_financial_news''] \<and>
   filter (\<lambda>r. fst r = ERROR) (logs (snd (main open_service fresh))) = []"
  by (simp add: main_def script_defs fresh_def credentials_file_def service_up_def open_service_def)

text \<open>
  C9, amended. When \<open>QDRANT_URL\<close> and \<open>QDRANT_API_KEY\<close> are missing or empty, the client
  is built from those values without any check and the update call is made through it.
  If that update call raises, no other remote call is made, the failure is logged by
  \<open>optimize_qdrant_collection\<close> and again by \<open>main\<close>, and \<open>main\<close> returns normally:
  the script ends with status 0.
\<close>

theorem missing_credentials_failure_swallowed:
  fixes w :: world and s :: state
  defines "url \<equiv> getenv (load_dotenv w s) ''QDRANT_URL''"
  defines "key \<equiv> getenv (load_dotenv w s) ''QDRANT_API_KEY''"
  defines "update \<equiv> UpdateCollection \<lparr>client_url = url, client_api_key = key\<rparr>
              ''alpaca_financial_news''
              [(''indexing_threshold'', 1000), (''max_optimization_threads'', 2)]
              [(''max_indexing_threads'', 4), (''m'', 24), (''ef_construct'', 200)]"
  assumes "url = None \<or> url = Some ''''"
    and "key = None \<or> key = Some ''''"
    and "client_init_error w url key = None"
    and "update_collection_reply w (calls s) \<lparr>client_url = url, client_api_key = key\<rparr>
              ''alpaca_financial_news''
              [(''indexing_threshold'', 1000), (''max_optimization_threads'', 2)]
              [(''max_indexing_threads'', 4), (''m'', 24), (''ef_construct'', 200)] = Inl e"
  shows "calls (snd (main w s)) = calls s @ [update] \<and>
         logs (snd (main w s)) =
           logs s @
           [(ERROR, ''Error optimizing collection alpaca_financial_news: '' @ exc_str e),
            (ERROR, ''Optimization failed: '' @ exc_str e)] \<and>
         fst (main w s) = Inr PyNone \<and>
         script_exit_status w s = 0"
  using assms(6-7) unfolding url_def key_def update_def
  by (auto simp: script_exit_status_def main_def script_defs Let_def
           split: sum.splits option.splits prod.splits)

theorem missing_credentials_failure_swallowed_witness:
  "getenv (load_dotenv anonymous_refused fresh) ''QDRANT_URL'' = None \<and>
   getenv (load_dotenv anonymous_refused fresh) ''QDRANT_API_KEY'' = None \<and>
   calls (snd (main anonymous_refused fresh)) =
     [UpdateCollection \<lparr>client_url = None, client_api_key = None\<rparr> ''alpaca_financial_news''
        [(''indexing_threshold'', 1000), (''max_optimization_threads'', 2)]
        [(''max_indexing_threads'', 4), (''m'', 24), (''ef_construct'', 200)]] \<and>
   logs (snd (main anonymous_refused fresh)) =
     [(ERROR, ''Error optimizing collection alpaca_financial_news: 403 (Forbidden)''),
      (ERROR, ''Optimization failed: 403 (Forbidden)'')] \<and>
   fst (main anonymous_refused fresh) = Inr PyNone \<and>
   script_exit_status anonymous_refused fresh = 0"
  using missing_credentials_failure_swallowed
          [where w = anonymous_refused and s = fresh
             and e = "PyException ''UnexpectedResponse'' ''403 (Forbidden)''"]
  by (simp add: getenv_def load_dotenv_def fresh_def credentials_file_def service_up_def anonymous_refused_def update_refused_def)

subsection \<open>The return value\<close>

text \<open>
  C10. For every collection name, a run of \<open>optimize_qdrant_collection\<close> that returns
  without an exception returns \<open>None\<close>: the snapshot read from the service is not the
  result, its two counts are only in the log.
\<close>

theorem optimize_returns_none:
  assumes "fst (optimize_qdrant_collection w collection_name s) = Inr v"
  shows "v = PyNone \<and>
         (\<exists>info. get_collection_reply w
              (calls s @
               [UpdateCollection
                  \<lparr>client_url = getenv (load_dotenv w s) ''QDRANT_URL'',
                     client_api_key = getenv (load_dotenv w s) ''QDRANT_API_KEY''\<rparr>
                  collection_name
                  [(''indexing_threshold'', 1000), (''max_optimization_threads'', 2)]
                  [(''max_indexing_threads'', 4), (''m'', 24), (''ef_construct'', 200)]])
              \<lparr>client_url = getenv (load_dotenv w s) ''QDRANT_URL'',
                 client_api_key = getenv (load_dotenv w s) ''QDRANT_API_KEY''\<rparr>
              collection_name = Inr info \<and>
            v \<noteq> PyCollectionInfo info \<and>
            (INFO, ''Indexed Vectors Count: '' @ str_int (indexed_vectors_count info))
              \<in> set (logs (snd (optimize_qdrant_collection w collection_name s))) \<and>
            (INFO, ''Total Vectors Count: '' @ str_int (vectors_count info))
              \<in> set (logs (snd (optimize_qdrant_collection w collection_name s))))"
  using assms
  by (auto simp: script_defs Let_def split: sum.splits option.splits prod.splits)

theorem optimize_returns_none_witness:
  "fst (optimize_qdrant_collection service_up ''alpaca_financial_news'' fresh) = Inr PyNone \<and>
   (INFO, ''Indexed Vectors Count: 500'')
     \<in> set (logs (snd (optimize_qdrant_collection service_up ''alpaca_financial_news'' fresh))) \<and>
   (INFO, ''Total Vectors Count: 1000'')
     \<in> set (logs (snd (optimize_qdrant_collection service_up ''alpaca_financial_news'' fresh)))"
proof -
  have ok: "fst (optimize_qdrant_collection service_up ''alpaca_financial_news'' fresh) = Inr PyNone"
    by (simp add: script_defs fresh_def credentials_file_def service_up_def)
  from optimize_returns_none [OF ok] ok show ?thesis
    by (auto simp: getenv_def load_dotenv_def str_int_def fresh_def credentials_file_def service_up_def)
qed

end
